theory Spec2Isabelle
  imports Main "HOL-Library.List_Lexorder" "HOL-Library.Product_Lexorder"
begin

section \<open>Python strings\<close>

text \<open>
  A Python \<^verbatim>\<open>str\<close> is a sequence of Unicode code points. The gender spellings of the
  program contain Cyrillic letters, so a string is a list of code points here, not a list
  of bytes. \<open>str\<close> turns an ASCII literal into such a list.
\<close>

type_synonym codepoint = nat
type_synonym pystr = "codepoint list"

definition str :: "string \<Rightarrow> pystr" where
  "str s = map of_char s"

text \<open>
  Excerpt of the Unicode case tables that \<^verbatim>\<open>str.lower\<close> and \<^verbatim>\<open>str.capitalize\<close>
  consult: the ASCII letters, the Cyrillic block U+0400 to U+045F, and the one entry of
  SpecialCasing.txt whose title case is a caseless code point followed by a capital
  letter, U+0149 (title case U+02BC U+004E). Code points outside the excerpt are left
  unchanged.
\<close>

definition lower_cp :: "codepoint \<Rightarrow> codepoint" where
  "lower_cp c =
     (if 65 \<le> c \<and> c \<le> 90 then c + 32
      else if 1040 \<le> c \<and> c \<le> 1071 then c + 32
      else if 1024 \<le> c \<and> c \<le> 1039 then c + 80
      else c)"

definition title_cp :: "codepoint \<Rightarrow> codepoint list" where
  "title_cp c =
     (if 97 \<le> c \<and> c \<le> 122 then [c - 32]
      else if 1072 \<le> c \<and> c \<le> 1103 then [c - 32]
      else if 1104 \<le> c \<and> c \<le> 1119 then [c - 80]
      else if c = 329 then [700, 78]
      else [c])"

definition py_lower :: "pystr \<Rightarrow> pystr" where
  "py_lower s = map lower_cp s"

text \<open>\<^verbatim>\<open>str.capitalize\<close>: the first code point in title case, the rest in lower case.\<close>

fun py_capitalize :: "pystr \<Rightarrow> pystr" where
  "py_capitalize [] = []"
| "py_capitalize (c # cs) = title_cp c @ py_lower cs"

text \<open>The code points for which \<^verbatim>\<open>str.isspace\<close> holds; \<^verbatim>\<open>str.split()\<close> splits at them.\<close>

definition is_space :: "codepoint \<Rightarrow> bool" where
  "is_space c \<longleftrightarrow>
     (9 \<le> c \<and> c \<le> 13) \<or> (28 \<le> c \<and> c \<le> 32) \<or> c = 133 \<or> c = 160 \<or> c = 5760 \<or>
     (8192 \<le> c \<and> c \<le> 8202) \<or> c = 8232 \<or> c = 8233 \<or> c = 8239 \<or> c = 8287 \<or> c = 12288"

text \<open>
  \<^verbatim>\<open>s.split()\<close>: the maximal runs of non-space code points. \<open>cur\<close> is the run being
  read.
\<close>

fun split_from :: "pystr \<Rightarrow> pystr \<Rightarrow> pystr list" where
  "split_from cur [] = (if cur = [] then [] else [cur])"
| "split_from cur (c # cs) =
     (if is_space c then (if cur = [] then split_from [] cs else cur # split_from [] cs)
      else split_from (cur @ [c]) cs)"

definition py_split :: "pystr \<Rightarrow> pystr list" where
  "py_split s = split_from [] s"

fun py_join :: "pystr \<Rightarrow> pystr list \<Rightarrow> pystr" where
  "py_join sep [] = []"
| "py_join sep [x] = x"
| "py_join sep (x # y # ys) = x @ sep @ py_join sep (y # ys)"

text \<open>\<^verbatim>\<open>str(n)\<close> for a non-negative integer: its decimal digits.\<close>

fun py_str_nat :: "nat \<Rightarrow> pystr" where
  "py_str_nat n = (if n < 10 then [48 + n] else py_str_nat (n div 10) @ [48 + n mod 10])"

declare py_str_nat.simps [simp del]

text \<open>\<^verbatim>\<open>s.startswith(p)\<close>, the case-sensitive prefix test.\<close>

fun startswith :: "pystr \<Rightarrow> pystr \<Rightarrow> bool" where
  "startswith s [] = True"
| "startswith [] (p # ps) = False"
| "startswith (c # cs) (p # ps) = (c = p \<and> startswith cs ps)"

section \<open>Errors\<close>

datatype py_error = ValueError | RuntimeError | OperationalError

section \<open>Calendar dates\<close>

record date =
  year :: nat
  month :: nat
  day :: nat

definition is_leap :: "nat \<Rightarrow> bool" where
  "is_leap y \<longleftrightarrow> y mod 4 = 0 \<and> (y mod 100 \<noteq> 0 \<or> y mod 400 = 0)"

definition days_in_month :: "nat \<Rightarrow> nat \<Rightarrow> nat" where
  "days_in_month y m =
     (if m = 2 then (if is_leap y then 29 else 28)
      else if m = 4 \<or> m = 6 \<or> m = 9 \<or> m = 11 then 30 else 31)"

text \<open>What the constructor \<^verbatim>\<open>datetime.date(y, m, d)\<close> accepts.\<close>

definition valid_date :: "date \<Rightarrow> bool" where
  "valid_date d \<longleftrightarrow>
     1 \<le> year d \<and> year d \<le> 9999 \<and> 1 \<le> month d \<and> month d \<le> 12 \<and>
     1 \<le> day d \<and> day d \<le> days_in_month (year d) (month d)"

definition is_digit :: "codepoint \<Rightarrow> bool" where
  "is_digit c \<longleftrightarrow> 48 \<le> c \<and> c \<le> 57"

definition zero_pad2 :: "nat \<Rightarrow> pystr" where
  "zero_pad2 n = [48 + n div 10 mod 10, 48 + n mod 10]"

definition zero_pad4 :: "nat \<Rightarrow> pystr" where
  "zero_pad4 n = [48 + n div 1000 mod 10, 48 + n div 100 mod 10, 48 + n div 10 mod 10, 48 + n mod 10]"

text \<open>\<^verbatim>\<open>date.isoformat()\<close>: YYYY-MM-DD.\<close>

definition isoformat :: "date \<Rightarrow> pystr" where
  "isoformat d = zero_pad4 (year d) @ [45] @ zero_pad2 (month d) @ [45] @ zero_pad2 (day d)"

text \<open>
  \<^verbatim>\<open>datetime.strptime(s, '%Y-%m-%d')\<close>. The format compiles to the regular expression
  \<^verbatim>\<open>(?P<Y>\d\d\d\d)-(?P<m>1[0-2]|0[1-9]|[1-9])-(?P<d>3[01]|[12]\d|0[1-9]|[1-9]| [1-9])\<close>,
  matched from the start of the string; text left over after the match, and a year, month
  and day that are not a calendar date, raise ValueError. The alternatives are tried in
  the order of the expression. Digits are the ASCII digits.
\<close>

fun parse_month :: "pystr \<Rightarrow> (nat \<times> pystr) option" where
  "parse_month (a # b # cs) =
     (if a = 49 \<and> 48 \<le> b \<and> b \<le> 50 then Some (10 + (b - 48), cs)
      else if a = 48 \<and> 49 \<le> b \<and> b \<le> 57 then Some (b - 48, cs)
      else if 49 \<le> a \<and> a \<le> 57 then Some (a - 48, b # cs)
      else None)"
| "parse_month [a] = (if 49 \<le> a \<and> a \<le> 57 then Some (a - 48, []) else None)"
| "parse_month [] = None"

fun parse_day :: "pystr \<Rightarrow> (nat \<times> pystr) option" where
  "parse_day (a # b # cs) =
     (if a = 51 \<and> 48 \<le> b \<and> b \<le> 49 then Some (30 + (b - 48), cs)
      else if 49 \<le> a \<and> a \<le> 50 \<and> is_digit b then Some (10 * (a - 48) + (b - 48), cs)
      else if a = 48 \<and> 49 \<le> b \<and> b \<le> 57 then Some (b - 48, cs)
      else if 49 \<le> a \<and> a \<le> 57 then Some (a - 48, b # cs)
      else if a = 32 \<and> 49 \<le> b \<and> b \<le> 57 then Some (b - 48, cs)
      else None)"
| "parse_day [a] = (if 49 \<le> a \<and> a \<le> 57 then Some (a - 48, []) else None)"
| "parse_day [] = None"

fun strptime :: "pystr \<Rightarrow> py_error + date" where
  "strptime (y1 # y2 # y3 # y4 # h # rest) =
     (if is_digit y1 \<and> is_digit y2 \<and> is_digit y3 \<and> is_digit y4 \<and> h = 45 then
        (case parse_month rest of
           None \<Rightarrow> Inl ValueError
         | Some (m, rest1) \<Rightarrow>
             (case rest1 of
                [] \<Rightarrow> Inl ValueError
              | h1 # rest2 \<Rightarrow>
                  if h1 \<noteq> 45 then Inl ValueError
                  else
                    (case parse_day rest2 of
                       None \<Rightarrow> Inl ValueError
                     | Some (d, rest3) \<Rightarrow>
                         let dt = \<lparr>year = 1000 * (y1 - 48) + 100 * (y2 - 48) + 10 * (y3 - 48) + (y4 - 48),
                                   month = m, day = d\<rparr>
                         in if rest3 = [] \<and> valid_date dt then Inr dt else Inl ValueError)))
      else Inl ValueError)"
| "strptime _ = Inl ValueError"

section \<open>The employees table\<close>

text \<open>
  The persisted state: whether the table \<^verbatim>\<open>employees\<close> exists, its rows in insertion
  order (\<^verbatim>\<open>id INTEGER PRIMARY KEY AUTOINCREMENT\<close>, three \<^verbatim>\<open>TEXT NOT NULL\<close> columns), the
  last id handed out, and the indexes by name with their column expressions.
\<close>

record employee_row =
  row_id :: nat
  full_name :: pystr
  birth_date :: pystr
  gender :: pystr

datatype index_col = Column string | Substr_1_1 string

record database =
  table_exists :: bool
  rows :: "employee_row list"
  last_id :: nat
  indexes :: "(string \<times> index_col list) list"

definition empty_database :: database where
  "empty_database = \<lparr>table_exists = False, rows = [], last_id = 0, indexes = []\<rparr>"

subsection \<open>The SQL statements the program issues\<close>

text \<open>\<^verbatim>\<open>CREATE TABLE IF NOT EXISTS employees (...)\<close>\<close>

definition create_table_if_not_exists :: "database \<Rightarrow> database" where
  "create_table_if_not_exists db =
     (if table_exists db then db else db\<lparr>table_exists := True, rows := []\<rparr>)"

text \<open>
  \<^verbatim>\<open>INSERT INTO employees (full_name, birth_date, gender) VALUES (?, ?, ?)\<close>; without the
  table SQLite raises OperationalError.
\<close>

definition insert_into_employees :: "pystr \<Rightarrow> pystr \<Rightarrow> pystr \<Rightarrow> database \<Rightarrow> py_error + database" where
  "insert_into_employees n b g db =
     (if table_exists db then
        Inr (db\<lparr>rows := rows db @ [\<lparr>row_id = last_id db + 1, full_name = n, birth_date = b, gender = g\<rparr>],
                 last_id := last_id db + 1\<rparr>)
      else Inl OperationalError)"

text \<open>\<^verbatim>\<open>SELECT ... FROM employees\<close>: the rows, or OperationalError without the table.\<close>

definition select_from_employees :: "database \<Rightarrow> py_error + employee_row list" where
  "select_from_employees db = (if table_exists db then Inr (rows db) else Inl OperationalError)"

text \<open>
  \<^verbatim>\<open>CREATE INDEX IF NOT EXISTS name ON employees(cols)\<close>: nothing happens when an index of
  that name exists.
\<close>

definition create_index_if_not_exists :: "string \<Rightarrow> index_col list \<Rightarrow> database \<Rightarrow> py_error + database" where
  "create_index_if_not_exists name cols db =
     (if \<not> table_exists db then Inl OperationalError
      else if name \<in> set (map fst (indexes db)) then Inr db
      else Inr (db\<lparr>indexes := indexes db @ [(name, cols)]\<rparr>))"

text \<open>
  SQLite's \<^verbatim>\<open>LIKE\<close>: \<^verbatim>\<open>%\<close> (37) matches any run of characters, \<^verbatim>\<open>_\<close> (95) one
  character, and any other character matches itself, upper and lower case of the 26 ASCII
  letters being the same (the default: no version sets
  \<^verbatim>\<open>PRAGMA case_sensitive_like\<close>).
\<close>

definition sqlite_fold_case :: "codepoint \<Rightarrow> codepoint" where
  "sqlite_fold_case c = (if 65 \<le> c \<and> c \<le> 90 then c + 32 else c)"

fun sqlite_like :: "pystr \<Rightarrow> pystr \<Rightarrow> bool" where
  "sqlite_like [] t = (t = [])"
| "sqlite_like (p # ps) [] = (p = 37 \<and> sqlite_like ps [])"
| "sqlite_like (p # ps) (c # cs) =
     (if p = 37 then sqlite_like ps (c # cs) \<or> sqlite_like (p # ps) cs
      else (p = 95 \<or> sqlite_fold_case p = sqlite_fold_case c) \<and> sqlite_like ps cs)"

text \<open>
  The date functions of SQLite read a text of the form YYYY-MM-DD; another text gives
  NULL (\<open>None\<close>). Texts that SQLite reads in further ways (a time after the date, a day
  past the end of the month, a Julian day number) are NULL in this model; the program
  writes none of them.
\<close>

fun sqlite_date :: "pystr \<Rightarrow> date option" where
  "sqlite_date [y1, y2, y3, y4, h1, m1, m2, h2, d1, d2] =
     (if is_digit y1 \<and> is_digit y2 \<and> is_digit y3 \<and> is_digit y4 \<and> h1 = 45 \<and>
         is_digit m1 \<and> is_digit m2 \<and> h2 = 45 \<and> is_digit d1 \<and> is_digit d2 then
        (let y = 1000 * (y1 - 48) + 100 * (y2 - 48) + 10 * (y3 - 48) + (y4 - 48);
             m = 10 * (m1 - 48) + (m2 - 48);
             d = 10 * (d1 - 48) + (d2 - 48)
         in if 1 \<le> m \<and> m \<le> 12 \<and> 1 \<le> d \<and> d \<le> days_in_month y m
            then Some \<lparr>year = y, month = m, day = d\<rparr> else None)
      else None)"
| "sqlite_date _ = None"

text \<open>\<^verbatim>\<open>strftime('%Y', d)\<close> and \<^verbatim>\<open>strftime('%m-%d', d)\<close>\<close>

definition strftime_Y :: "date \<Rightarrow> pystr" where
  "strftime_Y d = zero_pad4 (year d)"

definition strftime_m_d :: "date \<Rightarrow> pystr" where
  "strftime_m_d d = zero_pad2 (month d) @ [45] @ zero_pad2 (day d)"

text \<open>A text operand of \<^verbatim>\<open>-\<close> is read as the number its leading digits spell.\<close>

fun leading_number :: "nat \<Rightarrow> pystr \<Rightarrow> nat" where
  "leading_number acc [] = acc"
| "leading_number acc (c # cs) = (if is_digit c then leading_number (10 * acc + (c - 48)) cs else acc)"

text \<open>
  The column \<^verbatim>\<open>age\<close>:
  \<^verbatim>\<open>(strftime('%Y','now') - strftime('%Y',birth_date)) - (strftime('%m-%d','now') < strftime('%m-%d',birth_date))\<close>.
  \<open>now\<close> is the current date. Texts compare code point by code point.
\<close>

definition sql_age :: "date \<Rightarrow> pystr \<Rightarrow> int option" where
  "sql_age now b =
     (case sqlite_date b of
        None \<Rightarrow> None
      | Some bd \<Rightarrow>
          Some (int (leading_number 0 (strftime_Y now)) - int (leading_number 0 (strftime_Y bd))
                - (if strftime_m_d now < strftime_m_d bd then 1 else 0)))"

type_synonym result_row = "pystr \<times> pystr \<times> pystr \<times> int option"

text \<open>The select list \<^verbatim>\<open>full_name, birth_date, gender, age\<close>.\<close>

definition select_columns :: "date \<Rightarrow> employee_row \<Rightarrow> result_row" where
  "select_columns now r = (full_name r, birth_date r, gender r, sql_age now (birth_date r))"

text \<open>\<^verbatim>\<open>WHERE gender = 'Male' AND full_name LIKE 'F%'\<close>\<close>

definition where_male_f :: "employee_row \<Rightarrow> bool" where
  "where_male_f r \<longleftrightarrow> gender r = str ''Male'' \<and> sqlite_like (str ''F%'') (full_name r)"

text \<open>
  \<^verbatim>\<open>GROUP BY full_name, birth_date\<close>: one row for each pair. The statement selects
  \<^verbatim>\<open>gender\<close> outside an aggregate, so SQLite takes it from a row of the group that it
  chooses; the first row stands for its group here.
\<close>

definition group_key :: "employee_row \<Rightarrow> pystr \<times> pystr" where
  "group_key r = (full_name r, birth_date r)"

fun group_by_name_birth :: "employee_row list \<Rightarrow> employee_row list" where
  "group_by_name_birth [] = []"
| "group_by_name_birth (r # rs) = r # group_by_name_birth (filter (\<lambda>x. group_key x \<noteq> group_key r) rs)"

text \<open>
  \<^verbatim>\<open>ORDER BY full_name\<close>, in the binary collation. The groups come out of the sorter of
  \<^verbatim>\<open>GROUP BY\<close>, so equal names are in the order of their birth dates.
\<close>

definition order_by_full_name :: "employee_row list \<Rightarrow> employee_row list" where
  "order_by_full_name rs = sort_key group_key rs"

section \<open>Version 1: EmployeeDB\<close>

definition v1_create_table :: "database \<Rightarrow> database" where
  "v1_create_table db = create_table_if_not_exists db"

definition v1_ensure_table_exists :: "database \<Rightarrow> database" where
  "v1_ensure_table_exists db = (if table_exists db then db else v1_create_table db)"

text \<open>
  \<^verbatim>\<open>add_employee\<close> returns True or False; every exception is caught. The date is checked
  before the table is ensured.
\<close>

definition v1_add_employee :: "pystr \<Rightarrow> pystr \<Rightarrow> pystr \<Rightarrow> database \<Rightarrow> bool \<times> database" where
  "v1_add_employee name bdate g db =
     (case strptime bdate of
        Inl e \<Rightarrow> (False, db)
      | Inr d \<Rightarrow>
          let g' = (if py_lower g \<in> set [[1084], str ''m'', str ''male'', str ''1''] then str ''Male''
                    else str ''Female'');
              db1 = v1_ensure_table_exists db
          in (case insert_into_employees name bdate g' db1 of
                Inl e \<Rightarrow> (False, db1)
              | Inr db2 \<Rightarrow> (True, db2)))"

definition v1_get_all_employees :: "date \<Rightarrow> database \<Rightarrow> (py_error + result_row list) \<times> database" where
  "v1_get_all_employees now db =
     (let db1 = v1_ensure_table_exists db in
      (case select_from_employees db1 of
         Inl e \<Rightarrow> (Inl RuntimeError, db1)
       | Inr rs \<Rightarrow> (Inr (map (select_columns now) (order_by_full_name (group_by_name_birth rs))), db1)))"

definition v1_query_male_f :: "date \<Rightarrow> database \<Rightarrow> (py_error + result_row list) \<times> database" where
  "v1_query_male_f now db =
     (let db1 = v1_ensure_table_exists db in
      (case select_from_employees db1 of
         Inl e \<Rightarrow> (Inl e, db1)
       | Inr rs \<Rightarrow> (Inr (map (select_columns now) (filter where_male_f rs)), db1)))"

text \<open>
  The random generator and the clock are inputs: for the iteration \<open>i\<close> of a loop,
  \<open>rand_gender\<close>, \<open>rand_first\<close> and \<open>rand_last\<close> are the numbers drawn behind
  \<^verbatim>\<open>choice\<close> and the two \<^verbatim>\<open>randint(1, 1000)\<close>, and \<open>rand_birth\<close>, \<open>rand_special_birth\<close> the
  value of \<^verbatim>\<open>date.today() - timedelta(days=randint(18 * 365, 65 * 365))\<close>.
\<close>

record random_source =
  rand_gender :: "nat \<Rightarrow> nat"
  rand_first :: "nat \<Rightarrow> nat"
  rand_last :: "nat \<Rightarrow> nat"
  rand_birth :: "nat \<Rightarrow> date"
  rand_special_birth :: "nat \<Rightarrow> date"

definition choice_male_female :: "nat \<Rightarrow> pystr" where
  "choice_male_female r = (if r mod 2 = 0 then str ''Male'' else str ''Female'')"

definition randint :: "nat \<Rightarrow> nat \<Rightarrow> nat \<Rightarrow> nat" where
  "randint lo hi r = lo + r mod (hi - lo + 1)"

text \<open>\<^verbatim>\<open>range(n)\<close> is empty for a negative \<open>n\<close>.\<close>

definition py_range :: "int \<Rightarrow> nat list" where
  "py_range n = [0..<nat n]"

fun insert_main_records :: "random_source \<Rightarrow> nat list \<Rightarrow> database \<Rightarrow> py_error + database" where
  "insert_main_records src [] db = Inr db"
| "insert_main_records src (i # is) db =
     (let g = choice_male_female (rand_gender src i);
          first_name = str ''Name'' @ py_str_nat (randint 1 1000 (rand_first src i));
          last_name = str ''Lastname'' @ py_str_nat (randint 1 1000 (rand_last src i));
          b = rand_birth src i
      in (case insert_into_employees (last_name @ str '' '' @ first_name) (isoformat b) g db of
            Inl e \<Rightarrow> Inl e
          | Inr db' \<Rightarrow> insert_main_records src is db'))"

fun insert_special_records :: "random_source \<Rightarrow> nat list \<Rightarrow> database \<Rightarrow> py_error + database" where
  "insert_special_records src [] db = Inr db"
| "insert_special_records src (i # is) db =
     (let b = rand_special_birth src i
      in (case insert_into_employees (str ''Fake_'' @ py_str_nat i @ str '' Surname'') (isoformat b)
                 (str ''Male'') db of
            Inl e \<Rightarrow> Inl e
          | Inr db' \<Rightarrow> insert_special_records src is db'))"

text \<open>
  \<^verbatim>\<open>generate_test_data\<close> commits once, after both loops: an exception leaves the table as
  it was and goes to the caller.
\<close>

definition v1_generate_test_data :: "random_source \<Rightarrow> int \<Rightarrow> int \<Rightarrow> database \<Rightarrow> (py_error + int) \<times> database" where
  "v1_generate_test_data src count special db =
     (let db1 = v1_ensure_table_exists db in
      (case insert_main_records src (py_range count) db1 of
         Inl e \<Rightarrow> (Inl e, db1)
       | Inr db2 \<Rightarrow>
           (case insert_special_records src (py_range special) db2 of
              Inl e \<Rightarrow> (Inl e, db1)
            | Inr db3 \<Rightarrow> (Inr (count + special), db3))))"

text \<open>The three \<^verbatim>\<open>CREATE INDEX IF NOT EXISTS\<close> of versions 1 and 3.\<close>

definition create_three_indexes :: "database \<Rightarrow> py_error + database" where
  "create_three_indexes db =
     (case create_index_if_not_exists ''idx_gender_lastname'' [Column ''gender'', Substr_1_1 ''full_name''] db of
        Inl e \<Rightarrow> Inl e
      | Inr db1 \<Rightarrow>
          (case create_index_if_not_exists ''idx_gender'' [Column ''gender''] db1 of
             Inl e \<Rightarrow> Inl e
           | Inr db2 \<Rightarrow> create_index_if_not_exists ''idx_first_letter'' [Substr_1_1 ''full_name''] db2))"

text \<open>\<^verbatim>\<open>optimize_database\<close> does not ensure the table; an SQLite error becomes RuntimeError.\<close>

definition v1_optimize_database :: "database \<Rightarrow> (py_error + bool) \<times> database" where
  "v1_optimize_database db =
     (case create_three_indexes db of
        Inl e \<Rightarrow> (Inl RuntimeError, db)
      | Inr db' \<Rightarrow> (Inr True, db'))"

text \<open>
  Mode 6 of the application (\<^verbatim>\<open>handle_command\<close> and the interactive menu of app.py): the
  filter query, \<^verbatim>\<open>optimize_database\<close>, and after a true result the filter query again
  and the report. The durations it prints are readings of the clock. The result tells
  whether the report was printed.
\<close>

definition v1_handle_command_6 :: "date \<Rightarrow> database \<Rightarrow> (py_error + bool) \<times> database" where
  "v1_handle_command_6 now db =
     (case v1_query_male_f now db of
        (Inl e, db1) \<Rightarrow> (Inl e, db1)
      | (Inr before, db1) \<Rightarrow>
          (case v1_optimize_database db1 of
             (Inl e, db2) \<Rightarrow> (Inl e, db2)
           | (Inr ok, db2) \<Rightarrow>
               if ok then
                 (case v1_query_male_f now db2 of
                    (Inl e, db3) \<Rightarrow> (Inl e, db3)
                  | (Inr after, db3) \<Rightarrow> (Inr True, db3))
               else (Inr False, db2)))"

section \<open>Version 3: the HTTP API\<close>

text \<open>The request body \<^verbatim>\<open>EmployeeCreate\<close>: three strings.\<close>

record employee_create =
  req_full_name :: pystr
  req_birth_date :: pystr
  req_gender :: pystr

definition v3_init_db :: "database \<Rightarrow> database" where
  "v3_init_db db = create_table_if_not_exists db"

text \<open>
  \<^verbatim>\<open>POST /employees/\<close>: the status code of the response and the database afterwards.
  ValueError gives 400, any other exception 500, and the decorator 201.
\<close>

definition v3_create_employee :: "employee_create \<Rightarrow> database \<Rightarrow> nat \<times> database" where
  "v3_create_employee employee db =
     (case strptime (req_birth_date employee) of
        Inl e \<Rightarrow> (400, db)
      | Inr d \<Rightarrow>
          let g = (if py_lower (req_gender employee) \<in> set [[1084], str ''m'', str ''male'', str ''1'']
                   then str ''Male'' else str ''Female'')
          in (case insert_into_employees (req_full_name employee) (req_birth_date employee) g db of
                Inl e \<Rightarrow> (500, db)
              | Inr db' \<Rightarrow> (201, db')))"

text \<open>\<^verbatim>\<open>GET /employees/\<close>: every row, \<^verbatim>\<open>ORDER BY full_name\<close>, with no grouping.\<close>

definition v3_get_all_employees :: "date \<Rightarrow> database \<Rightarrow> py_error + result_row list" where
  "v3_get_all_employees now db =
     (case select_from_employees db of
        Inl e \<Rightarrow> Inl e
      | Inr rs \<Rightarrow> Inr (map (select_columns now) (sort_key full_name rs)))"

definition v3_generate_test_data :: "random_source \<Rightarrow> int \<Rightarrow> int \<Rightarrow> database \<Rightarrow> (py_error + int) \<times> database" where
  "v3_generate_test_data src count special db =
     (case insert_main_records src (py_range count) db of
        Inl e \<Rightarrow> (Inl e, db)
      | Inr db2 \<Rightarrow>
          (case insert_special_records src (py_range special) db2 of
             Inl e \<Rightarrow> (Inl e, db)
           | Inr db3 \<Rightarrow> (Inr (count + special), db3)))"

definition v3_query_male_f :: "date \<Rightarrow> database \<Rightarrow> py_error + result_row list" where
  "v3_query_male_f now db =
     (case select_from_employees db of
        Inl e \<Rightarrow> Inl e
      | Inr rs \<Rightarrow> Inr (map (select_columns now) (filter where_male_f rs)))"

text \<open>
  \<^verbatim>\<open>POST /employees/optimize/\<close>: the filter query, the three indexes, the filter query
  again. The two durations it reports are readings of the clock and are not part of the
  state.
\<close>

definition v3_optimize_database :: "database \<Rightarrow> py_error + database" where
  "v3_optimize_database db =
     (case select_from_employees db of
        Inl e \<Rightarrow> Inl e
      | Inr rs \<Rightarrow>
          (case create_three_indexes db of
             Inl e \<Rightarrow> Inl e
           | Inr db' \<Rightarrow> (case select_from_employees db' of Inl e \<Rightarrow> Inl e | Inr rs' \<Rightarrow> Inr db')))"

section \<open>Version 2: Employee, Database, EmployeeManager\<close>

subsection \<open>The model class Employee\<close>

record employee =
  emp_full_name :: pystr
  emp_birth_date :: date
  emp_gender :: pystr

definition normalize_name :: "pystr \<Rightarrow> pystr" where
  "normalize_name name = py_join (str '' '') (map py_capitalize (py_split name))"

definition normalize_gender :: "pystr \<Rightarrow> py_error + pystr" where
  "normalize_gender g =
     (let g' = py_lower g in
      if g' \<in> set [[1084], str ''m'', str ''male'', str ''1''] then Inr (str ''Male'')
      else if g' \<in> set [[1078], str ''f'', str ''female'', str ''2''] then Inr (str ''Female'')
      else Inl ValueError)"

text \<open>The constructor with \<^verbatim>\<open>__post_init__\<close>.\<close>

definition Employee :: "pystr \<Rightarrow> date \<Rightarrow> pystr \<Rightarrow> py_error + employee" where
  "Employee n b g =
     (case normalize_gender g of
        Inl e \<Rightarrow> Inl e
      | Inr g' \<Rightarrow> Inr \<lparr>emp_full_name = normalize_name n, emp_birth_date = b, emp_gender = g'\<rparr>)"


subsection \<open>Database (with \<^verbatim>\<open>db_type = 'sqlite'\<close>, the default of the settings)\<close>

definition db_table_exists :: "database \<Rightarrow> bool" where
  "db_table_exists db = table_exists db"

definition db_create_table :: "database \<Rightarrow> database" where
  "db_create_table db = create_table_if_not_exists db"

text \<open>\<^verbatim>\<open>insert_employee\<close>: \<^verbatim>\<open>INSERT ... RETURNING id\<close>; \<^verbatim>\<open>_execute\<close> turns an exception into RuntimeError.\<close>

definition db_insert_employee :: "pystr \<Rightarrow> date \<Rightarrow> pystr \<Rightarrow> database \<Rightarrow> (py_error + nat) \<times> database" where
  "db_insert_employee n b g db =
     (case insert_into_employees n (isoformat b) g db of
        Inl e \<Rightarrow> (Inl RuntimeError, db)
      | Inr db' \<Rightarrow> (Inr (last_id db'), db'))"

fun executemany_insert :: "(pystr \<times> pystr \<times> pystr) list \<Rightarrow> database \<Rightarrow> py_error + database" where
  "executemany_insert [] db = Inr db"
| "executemany_insert ((n, b, g) # es) db =
     (case insert_into_employees n b g db of
        Inl e \<Rightarrow> Inl e
      | Inr db' \<Rightarrow> executemany_insert es db')"

text \<open>\<^verbatim>\<open>batch_insert_employees\<close> returns \<^verbatim>\<open>cursor.rowcount\<close>, the number of rows inserted.\<close>

definition db_batch_insert_employees :: "employee list \<Rightarrow> database \<Rightarrow> (py_error + nat) \<times> database" where
  "db_batch_insert_employees employees db =
     (if employees = [] then (Inr 0, db)
      else
        (let data = map (\<lambda>emp. (emp_full_name emp, isoformat (emp_birth_date emp), emp_gender emp)) employees
         in (case executemany_insert data db of
               Inl e \<Rightarrow> (Inl RuntimeError, db)
             | Inr db' \<Rightarrow> (Inr (length data), db'))))"

text \<open>
  \<^verbatim>\<open>get_employees_by_gender_and_name_start\<close>: each row becomes a dictionary with the keys
  id, full_name, birth_date and gender, the birth date read by \<^verbatim>\<open>strptime\<close>. The
  duration returned with the list is a reading of the clock and is left out.
\<close>

type_synonym employee_dict = "nat \<times> pystr \<times> date \<times> pystr"

fun rows_to_dicts :: "employee_row list \<Rightarrow> py_error + employee_dict list" where
  "rows_to_dicts [] = Inr []"
| "rows_to_dicts (r # rs) =
     (case strptime (birth_date r) of
        Inl e \<Rightarrow> Inl e
      | Inr d \<Rightarrow>
          (case rows_to_dicts rs of
             Inl e \<Rightarrow> Inl e
           | Inr ds \<Rightarrow> Inr ((row_id r, full_name r, d, gender r) # ds)))"

definition db_get_employees_by_gender_and_name_start ::
    "pystr \<Rightarrow> pystr \<Rightarrow> database \<Rightarrow> py_error + employee_dict list" where
  "db_get_employees_by_gender_and_name_start g name_start db =
     (case select_from_employees db of
        Inl e \<Rightarrow> Inl RuntimeError
      | Inr rs \<Rightarrow>
          (case rows_to_dicts (filter (\<lambda>r. gender r = g \<and> sqlite_like (name_start @ str ''%'') (full_name r)) rs) of
             Inl e \<Rightarrow> Inl RuntimeError
           | Inr ds \<Rightarrow> Inr ds))"

definition db_create_indexes :: "database \<Rightarrow> py_error + database" where
  "db_create_indexes db =
     (case create_index_if_not_exists ''idx_gender_fname'' [Column ''gender'', Substr_1_1 ''full_name''] db of
        Inl e \<Rightarrow> Inl e
      | Inr db1 \<Rightarrow>
          (case create_index_if_not_exists ''idx_full_name'' [Column ''full_name''] db1 of
             Inl e \<Rightarrow> Inl e
           | Inr db2 \<Rightarrow> create_index_if_not_exists ''idx_birth_date'' [Column ''birth_date''] db2))"

subsection \<open>EmployeeManager\<close>

definition v2_ensure_table_exists :: "database \<Rightarrow> py_error + database" where
  "v2_ensure_table_exists db =
     (if \<not> db_table_exists db then
        (let db' = db_create_table db in
         if \<not> db_table_exists db' then Inl RuntimeError else Inr db')
      else Inr db)"

text \<open>
  \<^verbatim>\<open>add_employee\<close> with the birth date as a string: the table is ensured first, then the
  date and the gender are checked. ValueError is raised again as ValueError, any other
  exception as RuntimeError.
\<close>

definition v2_add_employee :: "pystr \<Rightarrow> pystr \<Rightarrow> pystr \<Rightarrow> database \<Rightarrow> (py_error + employee) \<times> database" where
  "v2_add_employee name bdate gender_input db =
     (case v2_ensure_table_exists db of
        Inl e \<Rightarrow> (Inl e, db)
      | Inr db1 \<Rightarrow>
          (case strptime bdate of
             Inl e \<Rightarrow> (Inl ValueError, db1)
           | Inr d \<Rightarrow>
               (case Employee name d gender_input of
                  Inl e \<Rightarrow> (Inl ValueError, db1)
                | Inr emp \<Rightarrow>
                    (case db_insert_employee (emp_full_name emp) (emp_birth_date emp) (emp_gender emp) db1 of
                       (Inl e, db2) \<Rightarrow> (Inl RuntimeError, db2)
                     | (Inr i, db2) \<Rightarrow> (Inr emp, db2)))))"

text \<open>The validation loop of \<^verbatim>\<open>batch_add_employees\<close>: an entry that raises is counted and skipped.\<close>

fun valid_employees :: "(pystr \<times> date \<times> pystr) list \<Rightarrow> employee list" where
  "valid_employees [] = []"
| "valid_employees ((n, b, g) # es) =
     (case Employee n b g of
        Inl e \<Rightarrow> valid_employees es
      | Inr emp \<Rightarrow> emp # valid_employees es)"

definition v2_batch_add_employees :: "(pystr \<times> date \<times> pystr) list \<Rightarrow> database \<Rightarrow> (py_error + nat) \<times> database" where
  "v2_batch_add_employees employees_data db =
     (case v2_ensure_table_exists db of
        Inl e \<Rightarrow> (Inl e, db)
      | Inr db1 \<Rightarrow>
          (case db_batch_insert_employees (valid_employees employees_data) db1 of
             (Inl e, db2) \<Rightarrow> (Inl RuntimeError, db2)
           | (Inr added_count, db2) \<Rightarrow> (Inr added_count, db2)))"

definition v2_get_male_employees_with_f_surname :: "database \<Rightarrow> (py_error + employee_dict list) \<times> database" where
  "v2_get_male_employees_with_f_surname db =
     (case v2_ensure_table_exists db of
        Inl e \<Rightarrow> (Inl e, db)
      | Inr db1 \<Rightarrow> (db_get_employees_by_gender_and_name_start (str ''Male'') (str ''F'') db1, db1))"

text \<open>
  \<^verbatim>\<open>Database.get_all_employees\<close>: every row, \<^verbatim>\<open>ORDER BY full_name\<close>, as dictionaries
  (the column \<^verbatim>\<open>created_at\<close>, a reading of the clock, is left out); \<^verbatim>\<open>_execute\<close> turns an
  exception of the query into RuntimeError, and \<^verbatim>\<open>strptime\<close> may raise ValueError.
\<close>

definition db_get_all_employees :: "database \<Rightarrow> py_error + employee_dict list" where
  "db_get_all_employees db =
     (case select_from_employees db of
        Inl e \<Rightarrow> Inl RuntimeError
      | Inr rs \<Rightarrow> rows_to_dicts (sort_key full_name rs))"

fun employees_of_dicts :: "employee_dict list \<Rightarrow> py_error + employee list" where
  "employees_of_dicts [] = Inr []"
| "employees_of_dicts ((i, n, b, g) # ds) =
     (case Employee n b g of
        Inl e \<Rightarrow> Inl e
      | Inr emp \<Rightarrow>
          (case employees_of_dicts ds of
             Inl e \<Rightarrow> Inl e
           | Inr emps \<Rightarrow> Inr (emp # emps)))"

text \<open>\<^verbatim>\<open>EmployeeManager.get_all_employees\<close>: every exception becomes RuntimeError.\<close>

definition v2_get_all_employees :: "database \<Rightarrow> (py_error + employee list) \<times> database" where
  "v2_get_all_employees db =
     (case v2_ensure_table_exists db of
        Inl e \<Rightarrow> (Inl e, db)
      | Inr db1 \<Rightarrow>
          (case db_get_all_employees db1 of
             Inl e \<Rightarrow> (Inl RuntimeError, db1)
           | Inr ds \<Rightarrow>
               (case employees_of_dicts ds of
                  Inl e \<Rightarrow> (Inl RuntimeError, db1)
                | Inr emps \<Rightarrow> (Inr emps, db1))))"

text \<open>
  \<^verbatim>\<open>optimize_and_test\<close>: the filter query, \<^verbatim>\<open>create_indexes\<close>, the filter query again;
  every exception becomes RuntimeError. The result holds the two durations only.
\<close>

definition v2_optimize_and_test :: "database \<Rightarrow> (py_error + unit) \<times> database" where
  "v2_optimize_and_test db =
     (case v2_ensure_table_exists db of
        Inl e \<Rightarrow> (Inl e, db)
      | Inr db1 \<Rightarrow>
          (case db_get_employees_by_gender_and_name_start (str ''Male'') (str ''F'') db1 of
             Inl e \<Rightarrow> (Inl RuntimeError, db1)
           | Inr before \<Rightarrow>
               (case db_create_indexes db1 of
                  Inl e \<Rightarrow> (Inl RuntimeError, db1)
                | Inr db2 \<Rightarrow>
                    (case db_get_employees_by_gender_and_name_start (str ''Male'') (str ''F'') db2 of
                       Inl e \<Rightarrow> (Inl RuntimeError, db2)
                     | Inr after \<Rightarrow> (Inr (), db2)))))"

text \<open>
  The Faker generator is an input: the values it returns for the item \<open>j\<close> of the batch
  \<open>b\<close>, and for the special record \<open>j\<close>.
\<close>

record faker_source =
  fake_gender :: "nat \<Rightarrow> nat \<Rightarrow> nat"
  fake_first_name_male :: "nat \<Rightarrow> nat \<Rightarrow> pystr"
  fake_first_name_female :: "nat \<Rightarrow> nat \<Rightarrow> pystr"
  fake_last_name :: "nat \<Rightarrow> nat \<Rightarrow> pystr"
  fake_date_of_birth :: "nat \<Rightarrow> nat \<Rightarrow> date"
  special_last_name :: "nat \<Rightarrow> pystr"
  special_first_name_male :: "nat \<Rightarrow> pystr"
  special_date_of_birth :: "nat \<Rightarrow> date"

definition batch_size :: int where
  "batch_size = 10000"

definition main_batch :: "faker_source \<Rightarrow> nat \<Rightarrow> (pystr \<times> date \<times> pystr) list" where
  "main_batch fake b =
     map (\<lambda>j. let g = choice_male_female (fake_gender fake b j);
                  first_name = (if g = str ''Male'' then fake_first_name_male fake b j
                                else fake_first_name_female fake b j);
                  last_name = fake_last_name fake b j
              in (last_name @ str '' '' @ first_name, fake_date_of_birth fake b j, g))
         (py_range batch_size)"

definition special_batch :: "faker_source \<Rightarrow> int \<Rightarrow> (pystr \<times> date \<times> pystr) list" where
  "special_batch fake special_count =
     map (\<lambda>j. (str ''Fake_'' @ special_last_name fake j @ str '' '' @ special_first_name_male fake j,
               special_date_of_birth fake j, str ''Male''))
         (py_range special_count)"

text \<open>The loop over \<^verbatim>\<open>range(count // batch_size)\<close>, with the running \<^verbatim>\<open>total_added\<close>.\<close>

fun add_main_batches :: "faker_source \<Rightarrow> nat list \<Rightarrow> nat \<Rightarrow> database \<Rightarrow> (py_error + nat) \<times> database" where
  "add_main_batches fake [] total_added db = (Inr total_added, db)"
| "add_main_batches fake (b # bs) total_added db =
     (case v2_batch_add_employees (main_batch fake b) db of
        (Inl e, db') \<Rightarrow> (Inl e, db')
      | (Inr added, db') \<Rightarrow> add_main_batches fake bs (total_added + added) db')"

text \<open>\<^verbatim>\<open>generate_test_data\<close> returns the dictionary with the keys total and special.\<close>

definition v2_generate_test_data :: "faker_source \<Rightarrow> int \<Rightarrow> int \<Rightarrow> database \<Rightarrow> (py_error + nat \<times> nat) \<times> database" where
  "v2_generate_test_data fake count special_count db =
     (case v2_ensure_table_exists db of
        Inl e \<Rightarrow> (Inl e, db)
      | Inr db1 \<Rightarrow>
          (case add_main_batches fake (py_range (count div batch_size)) 0 db1 of
             (Inl e, db2) \<Rightarrow> (Inl RuntimeError, db2)
           | (Inr total_added, db2) \<Rightarrow>
               (case v2_batch_add_employees (special_batch fake special_count) db2 of
                  (Inl e, db3) \<Rightarrow> (Inl RuntimeError, db3)
                | (Inr special_added, db3) \<Rightarrow> (Inr (total_added + special_added, special_added), db3))))"

section \<open>Notions of the specification\<close>

text \<open>The documented spellings of the two genders, after lower-casing.\<close>

definition male_spellings :: "pystr set" where
  "male_spellings = {[1084], str ''m'', str ''male'', str ''1''}"

definition female_spellings :: "pystr set" where
  "female_spellings = {[1078], str ''f'', str ''female'', str ''2''}"





text \<open>
  The filter of the specification, with the case-sensitive prefix test, and the filter with
  the prefix test that accepts both cases of the letter.
\<close>

definition male_with_F :: "employee_row \<Rightarrow> bool" where
  "male_with_F r \<longleftrightarrow> gender r = str ''Male'' \<and> startswith (full_name r) (str ''F'')"

definition male_with_F_or_f :: "employee_row \<Rightarrow> bool" where
  "male_with_F_or_f r \<longleftrightarrow>
     gender r = str ''Male'' \<and>
     (startswith (full_name r) (str ''F'') \<or> startswith (full_name r) (str ''f''))"

text \<open>The pair (full_name, birth_date) of a row of a result.\<close>

definition name_and_birth :: "result_row \<Rightarrow> pystr \<times> pystr" where
  "name_and_birth r = (fst r, fst (snd r))"

text \<open>
  The three indexes the specification names, the three indexes of version 2, and those
  of a list of indexes whose names a database does not have yet.
\<close>

definition three_indexes :: "(string \<times> index_col list) list" where
  "three_indexes =
     [(''idx_gender_lastname'', [Column ''gender'', Substr_1_1 ''full_name'']),
      (''idx_gender'', [Column ''gender'']),
      (''idx_first_letter'', [Substr_1_1 ''full_name''])]"

definition v2_three_indexes :: "(string \<times> index_col list) list" where
  "v2_three_indexes =
     [(''idx_gender_fname'', [Column ''gender'', Substr_1_1 ''full_name'']),
      (''idx_full_name'', [Column ''full_name'']),
      (''idx_birth_date'', [Column ''birth_date''])]"

definition missing_indexes :: "(string \<times> index_col list) list \<Rightarrow> database \<Rightarrow> (string \<times> index_col list) list" where
  "missing_indexes ixs db = filter (\<lambda>i. fst i \<notin> set (map fst (indexes db))) ixs"

text \<open>
  The public operations of each version with their arguments, the database an operation
  leaves behind, and the database after a sequence of operations: versions 1 and 2 start
  from the empty database, version 3 from the one its start-up has initialized.
\<close>

datatype v1_operation =
    V1_create_table
  | V1_add_employee pystr pystr pystr
  | V1_get_all_employees date
  | V1_generate_test_data random_source int int
  | V1_query_male_f date
  | V1_optimize_database

fun v1_apply :: "v1_operation \<Rightarrow> database \<Rightarrow> database" where
  "v1_apply V1_create_table db = v1_create_table db"
| "v1_apply (V1_add_employee n b g) db = snd (v1_add_employee n b g db)"
| "v1_apply (V1_get_all_employees now) db = snd (v1_get_all_employees now db)"
| "v1_apply (V1_generate_test_data src count special) db = snd (v1_generate_test_data src count special db)"
| "v1_apply (V1_query_male_f now) db = snd (v1_query_male_f now db)"
| "v1_apply V1_optimize_database db = snd (v1_optimize_database db)"

definition v1_run :: "v1_operation list \<Rightarrow> database" where
  "v1_run ops = foldl (\<lambda>db op. v1_apply op db) empty_database ops"

datatype v2_operation =
    V2_ensure_table_exists
  | V2_add_employee pystr pystr pystr
  | V2_get_all_employees
  | V2_generate_test_data faker_source int int
  | V2_get_male_employees_with_f_surname
  | V2_optimize_and_test

fun v2_apply :: "v2_operation \<Rightarrow> database \<Rightarrow> database" where
  "v2_apply V2_ensure_table_exists db = (case v2_ensure_table_exists db of Inl e \<Rightarrow> db | Inr db' \<Rightarrow> db')"
| "v2_apply (V2_add_employee n b g) db = snd (v2_add_employee n b g db)"
| "v2_apply V2_get_all_employees db = snd (v2_get_all_employees db)"
| "v2_apply (V2_generate_test_data fake count special) db = snd (v2_generate_test_data fake count special db)"
| "v2_apply V2_get_male_employees_with_f_surname db = snd (v2_get_male_employees_with_f_surname db)"
| "v2_apply V2_optimize_and_test db = snd (v2_optimize_and_test db)"

definition v2_run :: "v2_operation list \<Rightarrow> database" where
  "v2_run ops = foldl (\<lambda>db op. v2_apply op db) empty_database ops"

datatype v3_operation =
    V3_create_employee employee_create
  | V3_get_all_employees date
  | V3_generate_test_data random_source int int
  | V3_query_male_f date
  | V3_optimize_database

fun v3_apply :: "v3_operation \<Rightarrow> database \<Rightarrow> database" where
  "v3_apply (V3_create_employee e) db = snd (v3_create_employee e db)"
| "v3_apply (V3_get_all_employees now) db = db"
| "v3_apply (V3_generate_test_data src count special) db = snd (v3_generate_test_data src count special db)"
| "v3_apply (V3_query_male_f now) db = db"
| "v3_apply V3_optimize_database db = (case v3_optimize_database db of Inl e \<Rightarrow> db | Inr db' \<Rightarrow> db')"

definition v3_run :: "v3_operation list \<Rightarrow> database" where
  "v3_run ops = foldl (\<lambda>db op. v3_apply op db) (v3_init_db empty_database) ops"

text \<open>Every stored row has the gender Male or Female.\<close>

definition genders_valid :: "database \<Rightarrow> bool" where
  "genders_valid db \<longleftrightarrow> list_all (\<lambda>r. gender r = str ''Male'' \<or> gender r = str ''Female'') (rows db)"


section \<open>Basic facts about the SQL statements\<close>

lemma table_exists_create [simp]: "table_exists (create_table_if_not_exists db)"
  by (simp add: create_table_if_not_exists_def)

lemma create_table_when_exists [simp]: "table_exists db \<Longrightarrow> create_table_if_not_exists db = db"
  by (simp add: create_table_if_not_exists_def)

lemma v1_ensure_table_exists_eq: "v1_ensure_table_exists db = create_table_if_not_exists db"
  by (simp add: v1_ensure_table_exists_def v1_create_table_def create_table_if_not_exists_def)

lemma v2_ensure_table_exists_eq: "v2_ensure_table_exists db = Inr (create_table_if_not_exists db)"
  by (simp add: v2_ensure_table_exists_def db_table_exists_def db_create_table_def
      create_table_if_not_exists_def Let_def)

section \<open>Gender normalization\<close>

lemma normalize_gender_Male: "normalize_gender (str ''Male'') = Inr (str ''Male'')"
  by (simp add: normalize_gender_def py_lower_def lower_cp_def str_def)

lemma normalize_gender_Female: "normalize_gender (str ''Female'') = Inr (str ''Female'')"
  by (simp add: normalize_gender_def py_lower_def lower_cp_def str_def)

lemma normalize_gender_cases:
  "normalize_gender g =
     (if py_lower g \<in> male_spellings then Inr (str ''Male'')
      else if py_lower g \<in> female_spellings then Inr (str ''Female'')
      else Inl ValueError)"
  by (simp add: normalize_gender_def male_spellings_def female_spellings_def Let_def)


lemma normalize_gender_range:
  "normalize_gender g = Inr g' \<Longrightarrow> g' = str ''Male'' \<or> g' = str ''Female''"
  by (auto simp: normalize_gender_cases split: if_splits)









section \<open>Name normalization\<close>



















section \<open>Age\<close>



















section \<open>The filter query\<close>

lemma sqlite_like_percent: "sqlite_like [37] t"
  by (induction t) simp_all

lemma sqlite_like_F_percent:
  "sqlite_like (str ''F%'') t \<longleftrightarrow> startswith t (str ''F'') \<or> startswith t (str ''f'')"
proof (cases t)
  case Nil
  then show ?thesis by (simp add: str_def)
next
  case (Cons c cs)
  have "sqlite_fold_case 70 = sqlite_fold_case c \<longleftrightarrow> c = 70 \<or> c = 102"
    by (auto simp: sqlite_fold_case_def)
  then show ?thesis using Cons by (simp add: str_def sqlite_like_percent)
qed

lemma where_male_f_eq: "where_male_f = male_with_F_or_f"
  by (rule ext) (simp add: where_male_f_def male_with_F_or_f_def sqlite_like_F_percent)

lemma select_after_create:
  "select_from_employees (create_table_if_not_exists db) = Inr (rows (create_table_if_not_exists db))"
  by (simp add: select_from_employees_def)

lemma v1_query_male_f_eq:
  "v1_query_male_f now db =
     (Inr (map (select_columns now) (filter male_with_F_or_f (rows (create_table_if_not_exists db)))),
      create_table_if_not_exists db)"
  by (simp add: v1_query_male_f_def v1_ensure_table_exists_eq select_after_create where_male_f_eq Let_def)

lemma v3_query_male_f_eq:
  "table_exists db \<Longrightarrow>
     v3_query_male_f now db = Inr (map (select_columns now) (filter male_with_F_or_f (rows db)))"
  by (simp add: v3_query_male_f_def select_from_employees_def where_male_f_eq)




lemma rows_to_dicts_total:
  "\<forall>r\<in>set rs. \<exists>d. strptime (birth_date r) = Inr d \<Longrightarrow> \<exists>ds. rows_to_dicts rs = Inr ds"
  by (induction rs) auto





section \<open>The list of version 1\<close>

lemma group_by_name_birth_set:
  "group_key ` set (group_by_name_birth rs) = group_key ` set rs"
proof (induction rs rule: group_by_name_birth.induct)
  case 1
  then show ?case by simp
next
  case (2 r rs)
  have "group_key ` set (filter (\<lambda>x. group_key x \<noteq> group_key r) rs)
          = group_key ` set rs - {group_key r}"
    by auto
  then show ?case using 2 by auto
qed

lemma group_by_name_birth_distinct: "distinct (map group_key (group_by_name_birth rs))"
proof (induction rs rule: group_by_name_birth.induct)
  case 1
  then show ?case by simp
next
  case (2 r rs)
  have "group_key r \<notin> group_key ` set (filter (\<lambda>x. group_key x \<noteq> group_key r) rs)"
    by auto
  then have "group_key r \<notin> group_key ` set (group_by_name_birth (filter (\<lambda>x. group_key x \<noteq> group_key r) rs))"
    unfolding group_by_name_birth_set .
  then show ?case using 2 by simp
qed

lemma group_by_name_birth_length: "length (group_by_name_birth rs) \<le> length rs"
proof (induction rs rule: group_by_name_birth.induct)
  case 1
  then show ?case by simp
next
  case (2 r rs)
  have "length (group_by_name_birth (filter (\<lambda>x. group_key x \<noteq> group_key r) rs))
          \<le> length (filter (\<lambda>x. group_key x \<noteq> group_key r) rs)"
    by (rule 2)
  also have "\<dots> \<le> length rs"
    by (rule length_filter_le)
  finally show ?case by simp
qed

lemma group_by_name_birth_keys:
  "set (map group_key (group_by_name_birth rs)) = set (map group_key rs) \<and>
   distinct (map group_key (group_by_name_birth rs)) \<and>
   length (group_by_name_birth rs) \<le> length rs"
  using group_by_name_birth_set group_by_name_birth_distinct group_by_name_birth_length
  by simp

lemma sorted_map_fst:
  fixes zs :: "('a::linorder \<times> 'b::linorder) list"
  shows "sorted zs \<Longrightarrow> sorted (map fst zs)"
  by (induction zs) (auto simp: less_eq_prod_def)

lemma sorted_order_by_full_name: "sorted (map full_name (order_by_full_name rs))"
proof -
  have "sorted (map group_key (order_by_full_name rs))"
    by (simp add: order_by_full_name_def)
  then have "sorted (map fst (map group_key (order_by_full_name rs)))"
    by (rule sorted_map_fst)
  then show ?thesis by (simp add: comp_def group_key_def)
qed

lemma order_by_full_name_keys:
  "set (order_by_full_name rs) = set rs \<and> length (order_by_full_name rs) = length rs \<and>
   (distinct (map group_key rs) \<longrightarrow> distinct (map group_key (order_by_full_name rs)))"
  by (simp add: order_by_full_name_def distinct_map)

lemma name_and_birth_select: "name_and_birth (select_columns now r) = group_key r"
  by (simp add: name_and_birth_def select_columns_def group_key_def)

lemma fst_select: "fst (select_columns now r) = full_name r"
  by (simp add: select_columns_def)

lemma v1_get_all_employees_eq:
  "v1_get_all_employees now db =
     (Inr (map (select_columns now)
            (order_by_full_name (group_by_name_birth (rows (create_table_if_not_exists db))))),
      create_table_if_not_exists db)"
  by (simp add: v1_get_all_employees_def v1_ensure_table_exists_eq select_from_employees_def Let_def)

lemma two_employee_database:
  "snd (v1_add_employee (str ''Ivanov Ivan'') (str ''1990-05-15'') (str ''m'')
     (snd (v1_add_employee (str ''Ivanov Ivan'') (str ''1990-05-15'') (str ''f'') empty_database))) =
     \<lparr>table_exists = True,
      rows = [\<lparr>row_id = 1, full_name = str ''Ivanov Ivan'', birth_date = str ''1990-05-15'',
               gender = str ''Female''\<rparr>,
              \<lparr>row_id = 2, full_name = str ''Ivanov Ivan'', birth_date = str ''1990-05-15'',
               gender = str ''Male''\<rparr>],
      last_id = 2, indexes = []\<rparr>"
  by (simp add: v1_add_employee_def v1_ensure_table_exists_eq
      insert_into_employees_def create_table_if_not_exists_def empty_database_def
      py_lower_def lower_cp_def str_def is_digit_def valid_date_def days_in_month_def Let_def)

lemma v1_list_two_employees:
  "fst (v1_get_all_employees \<lparr>year = 2020, month = 5, day = 15\<rparr>
     (snd (v1_add_employee (str ''Ivanov Ivan'') (str ''1990-05-15'') (str ''m'')
       (snd (v1_add_employee (str ''Ivanov Ivan'') (str ''1990-05-15'') (str ''f'') empty_database)))))
   = Inr [(str ''Ivanov Ivan'', str ''1990-05-15'', str ''Female'', Some 30)]"
  unfolding two_employee_database
  by (simp add: v1_get_all_employees_eq order_by_full_name_def group_key_def
      select_columns_def sql_age_def strftime_Y_def strftime_m_d_def
      zero_pad4_def zero_pad2_def str_def is_digit_def days_in_month_def)

text \<open>
  C10. For every database state the list of version 1 has one row for each pair
  (full_name, birth_date) that is stored, and no pair twice; it is ordered by full_name;
  and it is no longer than the table. After the same name and birth date have been added
  twice, the table has two rows and the list one.
\<close>

theorem v1_list_groups:
  "\<exists>out. fst (v1_get_all_employees now db) = Inr out \<and>
     distinct (map name_and_birth out) \<and>
     set (map name_and_birth out) = set (map group_key (rows (create_table_if_not_exists db))) \<and>
     sorted (map fst out) \<and>
     length out \<le> length (rows (create_table_if_not_exists db)) \<and>
     (\<exists>db' out'. fst (v1_get_all_employees now db') = Inr out' \<and> length out' < length (rows db'))"
proof -
  let ?rs = "rows (create_table_if_not_exists db)"
  let ?g = "group_by_name_birth ?rs"
  let ?out = "map (select_columns now) (order_by_full_name ?g)"
  note g = group_by_name_birth_keys[of ?rs]
  note ob = order_by_full_name_keys[of ?g]
  have 1: "fst (v1_get_all_employees now db) = Inr ?out"
    by (simp add: v1_get_all_employees_eq)
  have k: "map name_and_birth ?out = map group_key (order_by_full_name ?g)"
    by (simp add: comp_def name_and_birth_select)
  have 2: "distinct (map name_and_birth ?out)" unfolding k using g ob by simp
  have "set (map group_key (order_by_full_name ?g)) = set (map group_key ?g)"
    using ob by simp
  then have 3: "set (map name_and_birth ?out) = set (map group_key ?rs)" unfolding k using g by simp
  have 4: "sorted (map fst ?out)"
    using sorted_order_by_full_name[of ?g] by (simp add: comp_def fst_select)
  have 5: "length ?out \<le> length ?rs" using g ob by simp
  let ?db' = "snd (v1_add_employee (str ''Ivanov Ivan'') (str ''1990-05-15'') (str ''m'')
       (snd (v1_add_employee (str ''Ivanov Ivan'') (str ''1990-05-15'') (str ''f'') empty_database)))"
  let ?out' = "map (select_columns now) (order_by_full_name (group_by_name_birth (rows ?db')))"
  have "fst (v1_get_all_employees now ?db') = Inr ?out'"
    unfolding two_employee_database by (simp add: v1_get_all_employees_eq)
  moreover have "length ?out' < length (rows ?db')"
    unfolding two_employee_database by (simp add: order_by_full_name_def group_key_def)
  ultimately have 6: "\<exists>db' out'. fst (v1_get_all_employees now db') = Inr out' \<and> length out' < length (rows db')"
    by blast
  show ?thesis using 1 2 3 4 5 6 by blast
qed

theorem v1_list_groups_witness:
  "\<exists>out. fst (v1_get_all_employees \<lparr>year = 2020, month = 5, day = 15\<rparr>
     (snd (v1_add_employee (str ''Ivanov Ivan'') (str ''1990-05-15'') (str ''m'')
       (snd (v1_add_employee (str ''Ivanov Ivan'') (str ''1990-05-15'') (str ''f'') empty_database)))))
     = Inr out \<and> out = [(str ''Ivanov Ivan'', str ''1990-05-15'', str ''Female'', Some 30)] \<and>
     distinct (map name_and_birth out) \<and> sorted (map fst out)"
  using v1_list_two_employees
    v1_list_groups [of "\<lparr>year = 2020, month = 5, day = 15\<rparr>"
      "snd (v1_add_employee (str ''Ivanov Ivan'') (str ''1990-05-15'') (str ''m'')
       (snd (v1_add_employee (str ''Ivanov Ivan'') (str ''1990-05-15'') (str ''f'') empty_database)))"]
  by auto

section \<open>Index creation\<close>

lemma create_three_indexes_eq:
  assumes "table_exists db"
  shows "create_three_indexes db = Inr (db\<lparr>indexes := indexes db @ missing_indexes three_indexes db\<rparr>)"
  using assms
  by (simp add: create_three_indexes_def create_index_if_not_exists_def missing_indexes_def
      three_indexes_def)

lemma db_create_indexes_eq:
  assumes "table_exists db"
  shows "db_create_indexes db = Inr (db\<lparr>indexes := indexes db @ missing_indexes v2_three_indexes db\<rparr>)"
  using assms
  by (simp add: db_create_indexes_def create_index_if_not_exists_def missing_indexes_def
      v2_three_indexes_def)

lemma v1_optimize_database_eq:
  assumes "table_exists db"
  shows "v1_optimize_database db = (Inr True, db\<lparr>indexes := indexes db @ missing_indexes three_indexes db\<rparr>)"
  using assms by (simp add: v1_optimize_database_def create_three_indexes_eq)

lemma v3_optimize_database_eq:
  assumes "table_exists db"
  shows "v3_optimize_database db = Inr (db\<lparr>indexes := indexes db @ missing_indexes three_indexes db\<rparr>)"
  using assms
  by (simp add: v3_optimize_database_def create_three_indexes_eq select_from_employees_def)

lemma v2_optimize_and_test_eq:
  assumes "fst (v2_optimize_and_test db) = Inr ()"
  shows "snd (v2_optimize_and_test db) =
           (create_table_if_not_exists db)
             \<lparr>indexes := indexes (create_table_if_not_exists db)
                 @ missing_indexes v2_three_indexes (create_table_if_not_exists db)\<rparr>"
  using assms
  by (simp add: v2_optimize_and_test_def v2_ensure_table_exists_eq db_create_indexes_eq
      split: sum.splits)




section \<open>Repeating the optimize operation\<close>

lemma missing_indexes_after:
  "missing_indexes ixs (db\<lparr>indexes := indexes db @ missing_indexes ixs db\<rparr>) = []"
  by (auto simp: missing_indexes_def filter_empty_conv)

lemma index_names_distinct:
  assumes "distinct (map fst (indexes db))" and "distinct (map fst ixs)"
  shows "distinct (map fst (indexes db @ missing_indexes ixs db))"
  using assms by (force simp: missing_indexes_def distinct_map_filter)

lemma v1_optimize_database_twice:
  assumes "table_exists db"
  shows "v1_optimize_database (snd (v1_optimize_database db)) = (Inr True, snd (v1_optimize_database db))"
  using assms by (simp add: v1_optimize_database_eq missing_indexes_after)

lemma v3_optimize_database_twice:
  assumes "v3_optimize_database db = Inr db1"
  shows "v3_optimize_database db1 = Inr db1"
proof -
  have t: "table_exists db"
    using assms by (auto simp: v3_optimize_database_def select_from_employees_def split: if_splits)
  then have "db1 = db\<lparr>indexes := indexes db @ missing_indexes three_indexes db\<rparr>"
    using assms by (simp add: v3_optimize_database_eq)
  then show ?thesis using t by (simp add: v3_optimize_database_eq missing_indexes_after)
qed

lemma v2_optimize_and_test_twice:
  assumes "v2_optimize_and_test db = (Inr (), db1)"
  shows "v2_optimize_and_test db1 = (Inr (), db1)"
proof -
  let ?c = "create_table_if_not_exists db"
  have d: "db1 = ?c\<lparr>indexes := indexes ?c @ missing_indexes v2_three_indexes ?c\<rparr>"
    using assms v2_optimize_and_test_eq[of db] by simp
  obtain ds where q: "db_get_employees_by_gender_and_name_start (str ''Male'') (str ''F'') ?c = Inr ds"
    using assms
    by (auto simp: v2_optimize_and_test_def v2_ensure_table_exists_eq split: sum.splits)
  have "db_get_employees_by_gender_and_name_start (str ''Male'') (str ''F'') db1 = Inr ds"
    using q by (simp add: d db_get_employees_by_gender_and_name_start_def select_from_employees_def)
  then show ?thesis
    by (simp add: d v2_optimize_and_test_def v2_ensure_table_exists_eq db_create_indexes_eq
        missing_indexes_after)
qed

lemma optimize_no_duplicate_names:
  assumes "distinct (map fst (indexes db))" and "table_exists db"
  shows "distinct (map fst (indexes (snd (v1_optimize_database db))))"
  using assms index_names_distinct[of db three_indexes]
  by (simp add: v1_optimize_database_eq three_indexes_def)

text \<open>
  \<^verbatim>\<open>optimize_database\<close> of version 1 does not ensure the table: called on a database
  without it, and not through mode 6, it raises RuntimeError each time.
\<close>

lemma v1_optimize_database_without_table:
  "v1_optimize_database empty_database = (Inl RuntimeError, empty_database) \<and>
   v1_optimize_database (snd (v1_optimize_database empty_database)) = (Inl RuntimeError, empty_database)"
  by (simp add: v1_optimize_database_def create_three_indexes_def create_index_if_not_exists_def
      empty_database_def)

lemma v1_handle_command_6_eq:
  "v1_handle_command_6 now db =
     (Inr True, (create_table_if_not_exists db)
        \<lparr>indexes := indexes (create_table_if_not_exists db)
            @ missing_indexes three_indexes (create_table_if_not_exists db)\<rparr>)"
  by (simp add: v1_handle_command_6_def v1_query_male_f_eq v1_optimize_database_eq)

lemma missing_indexes_create [simp]:
  "missing_indexes ixs (create_table_if_not_exists db) = missing_indexes ixs db"
  by (simp add: missing_indexes_def create_table_if_not_exists_def)

lemma indexes_create [simp]: "indexes (create_table_if_not_exists db) = indexes db"
  by (simp add: create_table_if_not_exists_def)

lemma v1_handle_command_6_twice:
  "v1_handle_command_6 now (snd (v1_handle_command_6 now db)) = (Inr True, snd (v1_handle_command_6 now db))"
proof -
  let ?c = "create_table_if_not_exists db"
  let ?d = "?c\<lparr>indexes := indexes ?c @ missing_indexes three_indexes ?c\<rparr>"
  have "table_exists ?d" by simp
  then have "create_table_if_not_exists ?d = ?d" by (rule create_table_when_exists)
  moreover have "missing_indexes three_indexes ?d = []" by (rule missing_indexes_after)
  ultimately have "v1_handle_command_6 now ?d = (Inr True, ?d)"
    by (simp only: v1_handle_command_6_eq[of now ?d]) simp
  then show ?thesis by (simp only: v1_handle_command_6_eq[of now db] snd_conv)
qed

lemma v2_optimize_and_test_total:
  assumes "\<forall>r\<in>set (rows (create_table_if_not_exists db)). \<exists>d. strptime (birth_date r) = Inr d"
  shows "fst (v2_optimize_and_test db) = Inr ()"
proof -
  let ?c = "create_table_if_not_exists db"
  let ?rs = "filter (\<lambda>r. gender r = str ''Male'' \<and> sqlite_like (str ''F'' @ str ''%'') (full_name r)) (rows ?c)"
  have "\<forall>r\<in>set ?rs. \<exists>d. strptime (birth_date r) = Inr d" using assms by simp
  then obtain ds where "rows_to_dicts ?rs = Inr ds" using rows_to_dicts_total by blast
  then have q: "db_get_employees_by_gender_and_name_start (str ''Male'') (str ''F'') ?c = Inr ds"
    by (simp add: db_get_employees_by_gender_and_name_start_def select_after_create)
  let ?d = "?c\<lparr>indexes := indexes ?c @ missing_indexes v2_three_indexes ?c\<rparr>"
  have "db_get_employees_by_gender_and_name_start (str ''Male'') (str ''F'') ?d = Inr ds"
    using q by (simp add: db_get_employees_by_gender_and_name_start_def select_from_employees_def)
  then show ?thesis using q
    by (simp add: v2_optimize_and_test_def v2_ensure_table_exists_eq db_create_indexes_eq)
qed

text \<open>
  C8. Invoking the optimize operation a second time succeeds and leaves the database,
  with its indexes, as the first invocation left it; the names of the indexes stay
  distinct. In version 1 the operation is mode 6 of the application, which ensures the
  table through the filter query, and succeeds on every database; the method
  \<^verbatim>\<open>optimize_database\<close> by itself does so on every database that has the table. In
  version 3 the operation succeeds on every database that has the table, which the
  start-up creates. In version 2 the operation ensures the table and succeeds whenever
  the stored birth dates parse.
\<close>

theorem optimize_twice:
  "fst (v1_handle_command_6 now db) = Inr True \<and>
   v1_handle_command_6 now (snd (v1_handle_command_6 now db))
     = (Inr True, snd (v1_handle_command_6 now db)) \<and>
   (distinct (map fst (indexes db)) \<longrightarrow>
      distinct (map fst (indexes (snd (v1_handle_command_6 now db))))) \<and>
   (table_exists db \<longrightarrow>
      fst (v1_optimize_database db) = Inr True \<and>
      v1_optimize_database (snd (v1_optimize_database db)) = (Inr True, snd (v1_optimize_database db)) \<and>
      (\<exists>db3. v3_optimize_database db = Inr db3 \<and> v3_optimize_database db3 = Inr db3)) \<and>
   ((\<forall>r\<in>set (rows (create_table_if_not_exists db)). \<exists>d. strptime (birth_date r) = Inr d) \<longrightarrow>
      fst (v2_optimize_and_test db) = Inr ()) \<and>
   (fst (v2_optimize_and_test db) = Inr () \<longrightarrow>
      v2_optimize_and_test (snd (v2_optimize_and_test db)) = (Inr (), snd (v2_optimize_and_test db)) \<and>
      (distinct (map fst (indexes db)) \<longrightarrow>
         distinct (map fst (indexes (snd (v2_optimize_and_test db))))))"
proof (intro conjI impI)
  show "fst (v1_handle_command_6 now db) = Inr True"
    by (simp add: v1_handle_command_6_eq)
next
  show "v1_handle_command_6 now (snd (v1_handle_command_6 now db))
          = (Inr True, snd (v1_handle_command_6 now db))"
    by (rule v1_handle_command_6_twice)
next
  assume "distinct (map fst (indexes db))"
  then show "distinct (map fst (indexes (snd (v1_handle_command_6 now db))))"
    using index_names_distinct[of db three_indexes]
    by (simp add: v1_handle_command_6_eq three_indexes_def)
next
  assume "table_exists db"
  then show "fst (v1_optimize_database db) = Inr True"
    by (simp add: v1_optimize_database_eq)
next
  assume "table_exists db"
  then show "v1_optimize_database (snd (v1_optimize_database db))
               = (Inr True, snd (v1_optimize_database db))"
    by (rule v1_optimize_database_twice)
next
  assume t: "table_exists db"
  then have "v3_optimize_database db = Inr (db\<lparr>indexes := indexes db @ missing_indexes three_indexes db\<rparr>)"
    by (rule v3_optimize_database_eq)
  then show "\<exists>db3. v3_optimize_database db = Inr db3 \<and> v3_optimize_database db3 = Inr db3"
    using v3_optimize_database_twice by blast
next
  assume "\<forall>r\<in>set (rows (create_table_if_not_exists db)). \<exists>d. strptime (birth_date r) = Inr d"
  then show "fst (v2_optimize_and_test db) = Inr ()"
    by (rule v2_optimize_and_test_total)
next
  assume "fst (v2_optimize_and_test db) = Inr ()"
  then have "v2_optimize_and_test db = (Inr (), snd (v2_optimize_and_test db))"
    by (metis prod.collapse)
  then show "v2_optimize_and_test (snd (v2_optimize_and_test db))
               = (Inr (), snd (v2_optimize_and_test db))"
    by (rule v2_optimize_and_test_twice)
next
  assume "fst (v2_optimize_and_test db) = Inr ()" and "distinct (map fst (indexes db))"
  then show "distinct (map fst (indexes (snd (v2_optimize_and_test db))))"
    using index_names_distinct[of "create_table_if_not_exists db" v2_three_indexes]
    by (simp add: v2_optimize_and_test_eq v2_three_indexes_def)
qed

lemma v2_optimize_and_test_empty:
  "v2_optimize_and_test empty_database
     = (Inr (), \<lparr>table_exists = True, rows = [], last_id = 0, indexes = v2_three_indexes\<rparr>)"
  by (simp add: v2_optimize_and_test_def v2_ensure_table_exists_eq db_create_indexes_def
      create_index_if_not_exists_def db_get_employees_by_gender_and_name_start_def
      select_from_employees_def create_table_if_not_exists_def empty_database_def
      v2_three_indexes_def)

lemma v1_handle_command_6_empty:
  "v1_handle_command_6 now empty_database
     = (Inr True, \<lparr>table_exists = True, rows = [], last_id = 0, indexes = three_indexes\<rparr>)"
  by (simp add: v1_handle_command_6_eq create_table_if_not_exists_def empty_database_def
      missing_indexes_def)

theorem optimize_twice_witness:
  "v1_handle_command_6 \<lparr>year = 2020, month = 5, day = 15\<rparr>
       \<lparr>table_exists = True, rows = [], last_id = 0, indexes = three_indexes\<rparr>
     = (Inr True, \<lparr>table_exists = True, rows = [], last_id = 0, indexes = three_indexes\<rparr>) \<and>
   v2_optimize_and_test \<lparr>table_exists = True, rows = [], last_id = 0, indexes = v2_three_indexes\<rparr>
     = (Inr (), \<lparr>table_exists = True, rows = [], last_id = 0, indexes = v2_three_indexes\<rparr>)"
proof -
  let ?now = "\<lparr>year = 2020, month = 5, day = 15\<rparr>"
  note t = optimize_twice [of ?now empty_database]
  have 1: "v1_handle_command_6 ?now (snd (v1_handle_command_6 ?now empty_database))
             = (Inr True, snd (v1_handle_command_6 ?now empty_database))"
    using t by (rule conjunct2 [THEN conjunct1])
  have f: "fst (v2_optimize_and_test empty_database) = Inr ()"
    by (simp add: v2_optimize_and_test_empty)
  have "fst (v2_optimize_and_test empty_database) = Inr () \<longrightarrow>
          v2_optimize_and_test (snd (v2_optimize_and_test empty_database))
            = (Inr (), snd (v2_optimize_and_test empty_database)) \<and>
          (distinct (map fst (indexes empty_database)) \<longrightarrow>
             distinct (map fst (indexes (snd (v2_optimize_and_test empty_database)))))"
    using t by (rule conjunct2 [THEN conjunct2, THEN conjunct2, THEN conjunct2, THEN conjunct2])
  then have 2: "v2_optimize_and_test (snd (v2_optimize_and_test empty_database))
                  = (Inr (), snd (v2_optimize_and_test empty_database))"
    using f by blast
  show ?thesis
    using 1 2 by (simp only: v1_handle_command_6_empty v2_optimize_and_test_empty snd_conv simp_thms)
qed

section \<open>POST /employees/ of version 3\<close>






section \<open>The gender of every stored row\<close>

lemma genders_valid_create:
  "genders_valid db \<Longrightarrow> genders_valid (create_table_if_not_exists db)"
  by (simp add: genders_valid_def create_table_if_not_exists_def)

lemma genders_valid_insert:
  assumes "genders_valid db" and "g = str ''Male'' \<or> g = str ''Female''"
    and "insert_into_employees n b g db = Inr db'"
  shows "genders_valid db'"
  using assms by (auto simp: genders_valid_def insert_into_employees_def split: if_splits)

lemma rows_create_index:
  "create_index_if_not_exists nm cols db = Inr db' \<Longrightarrow> rows db' = rows db"
  by (auto simp: create_index_if_not_exists_def split: if_splits)

lemma rows_create_three_indexes: "create_three_indexes db = Inr db' \<Longrightarrow> rows db' = rows db"
  by (auto simp: create_three_indexes_def split: sum.splits dest!: rows_create_index)

lemma rows_db_create_indexes: "db_create_indexes db = Inr db' \<Longrightarrow> rows db' = rows db"
  by (auto simp: db_create_indexes_def split: sum.splits dest!: rows_create_index)

lemma genders_valid_rows: "rows db' = rows db \<Longrightarrow> genders_valid db \<Longrightarrow> genders_valid db'"
  by (simp add: genders_valid_def)

lemma choice_male_female_range:
  "choice_male_female r = str ''Male'' \<or> choice_male_female r = str ''Female''"
  by (simp add: choice_male_female_def)

lemma genders_valid_main_records:
  "genders_valid db \<Longrightarrow> insert_main_records src is db = Inr db' \<Longrightarrow> genders_valid db'"
proof (induction "is" arbitrary: db)
  case Nil
  then show ?case by simp
next
  case (Cons i "is")
  then show ?case
    using choice_male_female_range[of "rand_gender src i"]
    by (auto simp: Let_def split: sum.splits dest: genders_valid_insert)
qed

lemma genders_valid_special_records:
  "genders_valid db \<Longrightarrow> insert_special_records src is db = Inr db' \<Longrightarrow> genders_valid db'"
proof (induction "is" arbitrary: db)
  case Nil
  then show ?case by simp
next
  case (Cons i "is")
  then show ?case
    by (auto simp: Let_def split: sum.splits dest: genders_valid_insert)
qed

lemma genders_valid_v1_add_employee:
  assumes "genders_valid db"
  shows "genders_valid (snd (v1_add_employee n b g db))"
  using assms genders_valid_create[of db]
  by (auto simp: v1_add_employee_def v1_ensure_table_exists_eq Let_def
      split: sum.splits dest: genders_valid_insert)

lemma genders_valid_generate:
  assumes "genders_valid db"
  shows "genders_valid (snd (v1_generate_test_data src count special db))"
    and "genders_valid (snd (v3_generate_test_data src count special db))"
  using assms genders_valid_create[of db]
  by (auto simp: v1_generate_test_data_def v3_generate_test_data_def v1_ensure_table_exists_eq Let_def
      split: sum.splits dest: genders_valid_main_records genders_valid_special_records)

lemma genders_valid_v1_apply:
  assumes "genders_valid db"
  shows "genders_valid (v1_apply op db)"
proof (cases op)
  case V1_create_table
  then show ?thesis using assms by (simp add: v1_create_table_def genders_valid_create)
next
  case (V1_add_employee n b g)
  then show ?thesis using assms by (simp add: genders_valid_v1_add_employee)
next
  case (V1_get_all_employees now)
  then show ?thesis using assms by (simp add: v1_get_all_employees_eq genders_valid_create)
next
  case (V1_generate_test_data src count special)
  then show ?thesis using assms by (simp add: genders_valid_generate)
next
  case (V1_query_male_f now)
  then show ?thesis using assms by (simp add: v1_query_male_f_eq genders_valid_create)
next
  case V1_optimize_database
  then show ?thesis using assms
    by (auto simp: v1_optimize_database_def split: sum.splits
        dest!: rows_create_three_indexes intro: genders_valid_rows)
qed

lemma genders_valid_v3_apply:
  assumes "genders_valid db"
  shows "genders_valid (v3_apply op db)"
proof (cases op)
  case (V3_create_employee e)
  then show ?thesis using assms
    by (auto simp: v3_create_employee_def Let_def split: sum.splits dest: genders_valid_insert)
next
  case (V3_get_all_employees now)
  then show ?thesis using assms by simp
next
  case (V3_generate_test_data src count special)
  then show ?thesis using assms by (simp add: genders_valid_generate)
next
  case (V3_query_male_f now)
  then show ?thesis using assms by simp
next
  case V3_optimize_database
  then show ?thesis using assms
    by (auto simp: v3_optimize_database_def split: sum.splits
        dest!: rows_create_three_indexes intro: genders_valid_rows)
qed

lemma valid_employees_genders:
  "e \<in> set (valid_employees xs) \<Longrightarrow> emp_gender e = str ''Male'' \<or> emp_gender e = str ''Female''"
proof (induction xs rule: valid_employees.induct)
  case 1
  then show ?case by simp
next
  case (2 n b g es)
  then show ?case
    by (auto simp: Employee_def split: sum.splits dest: normalize_gender_range)
qed

lemma genders_valid_executemany:
  "genders_valid db \<Longrightarrow> \<forall>x\<in>set data. snd (snd x) = str ''Male'' \<or> snd (snd x) = str ''Female'' \<Longrightarrow>
     executemany_insert data db = Inr db' \<Longrightarrow> genders_valid db'"
proof (induction data db rule: executemany_insert.induct)
  case (1 db)
  then show ?case by simp
next
  case (2 n b g es db)
  then show ?case
    by (auto split: sum.splits dest: genders_valid_insert)
qed

lemma genders_valid_v2_batch_add_employees:
  assumes "genders_valid db"
  shows "genders_valid (snd (v2_batch_add_employees xs db))"
proof -
  let ?c = "create_table_if_not_exists db"
  let ?data = "map (\<lambda>emp. (emp_full_name emp, isoformat (emp_birth_date emp), emp_gender emp))
                 (valid_employees xs)"
  have c: "genders_valid ?c" using assms by (rule genders_valid_create)
  have d: "\<forall>x\<in>set ?data. snd (snd x) = str ''Male'' \<or> snd (snd x) = str ''Female''"
    using valid_employees_genders by auto
  have "genders_valid (snd (db_batch_insert_employees (valid_employees xs) ?c))"
  proof (cases "executemany_insert ?data ?c")
    case (Inl e)
    then show ?thesis using c by (simp add: db_batch_insert_employees_def)
  next
    case (Inr db')
    then have "genders_valid db'" using genders_valid_executemany[OF c d] by simp
    then show ?thesis using c Inr by (simp add: db_batch_insert_employees_def)
  qed
  then show ?thesis
    by (auto simp: v2_batch_add_employees_def v2_ensure_table_exists_eq split: prod.splits sum.splits)
qed

lemma genders_valid_add_main_batches:
  "genders_valid db \<Longrightarrow> genders_valid (snd (add_main_batches fake bs acc db))"
proof (induction bs arbitrary: acc db)
  case Nil
  then show ?case by simp
next
  case (Cons b bs)
  have "genders_valid (snd (v2_batch_add_employees (main_batch fake b) db))"
    using Cons.prems by (rule genders_valid_v2_batch_add_employees)
  then show ?case using Cons.IH
    by (auto split: prod.splits sum.splits)
qed

lemma genders_valid_v2_generate_test_data:
  assumes "genders_valid db"
  shows "genders_valid (snd (v2_generate_test_data fake count special db))"
proof -
  let ?c = "create_table_if_not_exists db"
  let ?m = "add_main_batches fake (py_range (count div batch_size)) 0 ?c"
  have m: "genders_valid (snd ?m)"
    using assms by (simp add: genders_valid_create genders_valid_add_main_batches)
  then have "genders_valid (snd (v2_batch_add_employees (special_batch fake special) (snd ?m)))"
    by (rule genders_valid_v2_batch_add_employees)
  then show ?thesis using m
    by (auto simp: v2_generate_test_data_def v2_ensure_table_exists_eq split: prod.splits sum.splits)
qed

lemma genders_valid_v2_add_employee:
  assumes "genders_valid db"
  shows "genders_valid (snd (v2_add_employee n b g db))"
  using assms genders_valid_create[of db]
  by (auto simp: v2_add_employee_def v2_ensure_table_exists_eq db_insert_employee_def Employee_def
      split: sum.splits prod.splits dest: genders_valid_insert normalize_gender_range)

lemma genders_valid_v2_apply:
  assumes "genders_valid db"
  shows "genders_valid (v2_apply op db)"
proof (cases op)
  case V2_ensure_table_exists
  then show ?thesis using assms by (simp add: v2_ensure_table_exists_eq genders_valid_create)
next
  case (V2_add_employee n b g)
  then show ?thesis using assms by (simp add: genders_valid_v2_add_employee)
next
  case V2_get_all_employees
  then show ?thesis using assms genders_valid_create[of db]
    by (auto simp: v2_get_all_employees_def v2_ensure_table_exists_eq split: sum.splits)
next
  case (V2_generate_test_data fake count special)
  then show ?thesis using assms by (simp add: genders_valid_v2_generate_test_data)
next
  case V2_get_male_employees_with_f_surname
  then show ?thesis using assms
    by (simp add: v2_get_male_employees_with_f_surname_def v2_ensure_table_exists_eq genders_valid_create)
next
  case V2_optimize_and_test
  then show ?thesis using assms genders_valid_create[of db]
    by (auto simp: v2_optimize_and_test_def v2_ensure_table_exists_eq split: sum.splits
        dest!: rows_db_create_indexes intro: genders_valid_rows)
qed

lemma foldl_invariant:
  assumes "P s" and "\<And>x s. P s \<Longrightarrow> P (f x s)"
  shows "P (foldl (\<lambda>s x. f x s) s xs)"
  using assms(1) by (induction xs arbitrary: s) (simp_all add: assms(2))

lemma genders_valid_start:
  "genders_valid empty_database" "genders_valid (v3_init_db empty_database)"
  by (simp_all add: genders_valid_def empty_database_def v3_init_db_def create_table_if_not_exists_def)

text \<open>
  C9. After every sequence of public operations of any version (create or ensure the
  table, add, list, bulk generate, filter, optimize), with whatever arguments, every
  stored row has the gender \<open>Male\<close> or the gender \<open>Female\<close>.
\<close>

theorem stored_genders:
  "genders_valid (v1_run ops1) \<and> genders_valid (v2_run ops2) \<and> genders_valid (v3_run ops3)"
  unfolding v1_run_def v2_run_def v3_run_def
  using foldl_invariant[of genders_valid empty_database v1_apply ops1]
    foldl_invariant[of genders_valid empty_database v2_apply ops2]
    foldl_invariant[of genders_valid "v3_init_db empty_database" v3_apply ops3]
    genders_valid_start genders_valid_v1_apply genders_valid_v2_apply genders_valid_v3_apply
  by blast

lemma unknown_gender_stored_female:
  "map gender (rows (snd (v1_add_employee (str ''Ivanov Ivan'') (str ''1990-05-15'') (str ''x'') empty_database)))
     = [str ''Female'']"
  by (simp add: v1_add_employee_def v1_ensure_table_exists_eq
     insert_into_employees_def create_table_if_not_exists_def empty_database_def
     py_lower_def lower_cp_def str_def is_digit_def valid_date_def days_in_month_def Let_def)

theorem stored_genders_witness:
  "genders_valid (v1_run [V1_add_employee (str ''Ivanov Ivan'') (str ''1990-05-15'') (str ''x'')]) \<and>
   map gender (rows (v1_run [V1_add_employee (str ''Ivanov Ivan'') (str ''1990-05-15'') (str ''x'')]))
     = [str ''Female'']"
  using unknown_gender_stored_female
    stored_genders [of "[V1_add_employee (str ''Ivanov Ivan'') (str ''1990-05-15'') (str ''x'')]" "[]" "[]"]
  by (simp add: v1_run_def)

section \<open>Bulk generation\<close>

lemma insert_into_employees_table:
  assumes "table_exists db"
  shows "\<exists>db'. insert_into_employees n b g db = Inr db' \<and> table_exists db' \<and>
           rows db' = rows db @ [\<lparr>row_id = last_id db + 1, full_name = n, birth_date = b, gender = g\<rparr>]"
  using assms by (simp add: insert_into_employees_def)

lemma insert_main_records_count:
  "table_exists db \<Longrightarrow>
     \<exists>db'. insert_main_records src is db = Inr db' \<and> table_exists db' \<and>
       length (rows db') = length (rows db) + length is \<and>
       length (filter male_with_F_or_f (rows db)) \<le> length (filter male_with_F_or_f (rows db'))"
proof (induction "is" arbitrary: db)
  case Nil
  then show ?case by simp
next
  case (Cons i "is")
  let ?n = "(str ''Lastname'' @ py_str_nat (randint 1 1000 (rand_last src i))) @ str '' '' @
              str ''Name'' @ py_str_nat (randint 1 1000 (rand_first src i))"
  obtain db1 where 1: "insert_into_employees ?n (isoformat (rand_birth src i))
        (choice_male_female (rand_gender src i)) db = Inr db1" "table_exists db1"
      "rows db1 = rows db @ [\<lparr>row_id = last_id db + 1, full_name = ?n,
          birth_date = isoformat (rand_birth src i), gender = choice_male_female (rand_gender src i)\<rparr>]"
    using insert_into_employees_table[OF Cons.prems] by blast
  obtain db' where 2: "insert_main_records src is db1 = Inr db'" "table_exists db'"
      "length (rows db') = length (rows db1) + length is"
      "length (filter male_with_F_or_f (rows db1)) \<le> length (filter male_with_F_or_f (rows db'))"
    using Cons.IH[OF 1(2)] by blast
  have "length (filter male_with_F_or_f (rows db)) \<le> length (filter male_with_F_or_f (rows db1))"
    by (simp add: 1(3))
  then show ?case using 1 2 by (simp add: Let_def)
qed

lemma special_name_matches:
  "male_with_F_or_f \<lparr>row_id = k, full_name = str ''Fake_'' @ s, birth_date = b, gender = str ''Male''\<rparr>"
  by (simp add: male_with_F_or_f_def str_def)

lemma insert_special_records_count:
  "table_exists db \<Longrightarrow>
     \<exists>db'. insert_special_records src is db = Inr db' \<and> table_exists db' \<and>
       length (rows db') = length (rows db) + length is \<and>
       length (filter male_with_F_or_f (rows db')) = length (filter male_with_F_or_f (rows db)) + length is"
proof (induction "is" arbitrary: db)
  case Nil
  then show ?case by simp
next
  case (Cons i "is")
  let ?n = "str ''Fake_'' @ py_str_nat i @ str '' Surname''"
  obtain db1 where 1: "insert_into_employees ?n (isoformat (rand_special_birth src i)) (str ''Male'') db = Inr db1"
      "table_exists db1"
      "rows db1 = rows db @ [\<lparr>row_id = last_id db + 1, full_name = ?n,
          birth_date = isoformat (rand_special_birth src i), gender = str ''Male''\<rparr>]"
    using insert_into_employees_table[OF Cons.prems] by blast
  obtain db' where 2: "insert_special_records src is db1 = Inr db'" "table_exists db'"
      "length (rows db') = length (rows db1) + length is"
      "length (filter male_with_F_or_f (rows db')) = length (filter male_with_F_or_f (rows db1)) + length is"
    using Cons.IH[OF 1(2)] by blast
  have "length (filter male_with_F_or_f (rows db1)) = length (filter male_with_F_or_f (rows db)) + 1"
    by (simp add: 1(3) special_name_matches)
  then show ?case using 1 2 by (simp add: Let_def)
qed

text \<open>
  Versions 1 and 3 do what C3 says: the table grows by exactly \<open>count + special\<close> rows
  and the filter query finds at least \<open>special\<close> of them.
\<close>

lemma v1_generate_test_data_count:
  assumes "0 \<le> count" and "0 \<le> special"
  shows "\<exists>db'. v1_generate_test_data src count special db = (Inr (count + special), db') \<and>
           int (length (rows db')) = int (length (rows (create_table_if_not_exists db))) + count + special \<and>
           (\<exists>out. fst (v1_query_male_f now db') = Inr out \<and> special \<le> int (length out))"
proof -
  let ?c = "create_table_if_not_exists db"
  obtain db2 where 2: "insert_main_records src (py_range count) ?c = Inr db2" "table_exists db2"
      "length (rows db2) = length (rows ?c) + length (py_range count)"
    using insert_main_records_count[of ?c] by auto
  obtain db3 where 3: "insert_special_records src (py_range special) db2 = Inr db3" "table_exists db3"
      "length (rows db3) = length (rows db2) + length (py_range special)"
      "length (filter male_with_F_or_f (rows db3))
         = length (filter male_with_F_or_f (rows db2)) + length (py_range special)"
    using insert_special_records_count[OF 2(2)] by blast
  have g: "v1_generate_test_data src count special db = (Inr (count + special), db3)"
    using 2 3 by (simp add: v1_generate_test_data_def v1_ensure_table_exists_eq Let_def)
  have l: "int (length (rows db3)) = int (length (rows ?c)) + count + special"
    using 2 3 assms by (simp add: py_range_def)
  have "special \<le> int (length (filter male_with_F_or_f (rows db3)))"
    using 3(4) assms by (simp add: py_range_def)
  then have "\<exists>out. fst (v1_query_male_f now db3) = Inr out \<and> special \<le> int (length out)"
    using 3(2) by (simp add: v1_query_male_f_eq)
  then show ?thesis using g l by blast
qed

lemma v3_generate_test_data_count:
  assumes "0 \<le> count" and "0 \<le> special" and "table_exists db"
  shows "\<exists>db'. v3_generate_test_data src count special db = (Inr (count + special), db') \<and>
           int (length (rows db')) = int (length (rows db)) + count + special \<and>
           (\<exists>out. v3_query_male_f now db' = Inr out \<and> special \<le> int (length out))"
proof -
  obtain db2 where 2: "insert_main_records src (py_range count) db = Inr db2" "table_exists db2"
      "length (rows db2) = length (rows db) + length (py_range count)"
    using insert_main_records_count[OF assms(3)] by blast
  obtain db3 where 3: "insert_special_records src (py_range special) db2 = Inr db3" "table_exists db3"
      "length (rows db3) = length (rows db2) + length (py_range special)"
      "length (filter male_with_F_or_f (rows db3))
         = length (filter male_with_F_or_f (rows db2)) + length (py_range special)"
    using insert_special_records_count[OF 2(2)] by blast
  have g: "v3_generate_test_data src count special db = (Inr (count + special), db3)"
    using 2 3 by (simp add: v3_generate_test_data_def)
  have l: "int (length (rows db3)) = int (length (rows db)) + count + special"
    using 2 3 assms by (simp add: py_range_def)
  have "special \<le> int (length (filter male_with_F_or_f (rows db3)))"
    using 3(4) assms by (simp add: py_range_def)
  then have "\<exists>out. v3_query_male_f now db3 = Inr out \<and> special \<le> int (length out)"
    using 3(2) by (simp add: v3_query_male_f_eq)
  then show ?thesis using g l by blast
qed

text \<open>
  Version 2 adds its main records in whole batches of 10000: \<open>count div 10000\<close> batches.
\<close>

lemma Employee_valid_gender:
  assumes "g = str ''Male'' \<or> g = str ''Female''"
  shows "Employee n b g = Inr \<lparr>emp_full_name = normalize_name n, emp_birth_date = b, emp_gender = g\<rparr>"
  using assms normalize_gender_Male normalize_gender_Female by (auto simp: Employee_def)

lemma valid_employees_all:
  "\<forall>x\<in>set xs. snd (snd x) = str ''Male'' \<or> snd (snd x) = str ''Female'' \<Longrightarrow>
     length (valid_employees xs) = length xs"
proof (induction xs rule: valid_employees.induct)
  case 1
  then show ?case by simp
next
  case (2 n b g es)
  then show ?case by (simp add: Employee_valid_gender)
qed

lemma executemany_insert_count:
  "table_exists db \<Longrightarrow>
     \<exists>db'. executemany_insert data db = Inr db' \<and> table_exists db' \<and>
       length (rows db') = length (rows db) + length data"
proof (induction data db rule: executemany_insert.induct)
  case (1 db)
  then show ?case by simp
next
  case (2 n b g es db)
  obtain db1 where 1: "insert_into_employees n b g db = Inr db1" "table_exists db1"
      "length (rows db1) = length (rows db) + 1"
    using insert_into_employees_table[OF "2.prems", of n b g] by auto
  then show ?case using "2.IH"[OF 1(1) 1(2)] by auto
qed

lemma v2_batch_add_employees_count:
  assumes "table_exists db"
    and "\<forall>x\<in>set xs. snd (snd x) = str ''Male'' \<or> snd (snd x) = str ''Female''"
  shows "\<exists>db'. v2_batch_add_employees xs db = (Inr (length xs), db') \<and> table_exists db' \<and>
           length (rows db') = length (rows db) + length xs"
proof (cases "valid_employees xs = []")
  case True
  then have "xs = []" using valid_employees_all[OF assms(2)] by auto
  then show ?thesis using assms(1)
    by (simp add: v2_batch_add_employees_def v2_ensure_table_exists_eq db_batch_insert_employees_def)
next
  case False
  let ?data = "map (\<lambda>emp. (emp_full_name emp, isoformat (emp_birth_date emp), emp_gender emp))
                 (valid_employees xs)"
  obtain db' where 1: "executemany_insert ?data db = Inr db'" "table_exists db'"
      "length (rows db') = length (rows db) + length ?data"
    using executemany_insert_count[OF assms(1)] by blast
  then show ?thesis using False assms(1) valid_employees_all[OF assms(2)]
    by (simp add: v2_batch_add_employees_def v2_ensure_table_exists_eq db_batch_insert_employees_def)
qed

lemma main_batch_shape:
  "length (main_batch fake b) = 10000 \<and>
   (\<forall>x\<in>set (main_batch fake b). snd (snd x) = str ''Male'' \<or> snd (snd x) = str ''Female'')"
  using choice_male_female_range
  by (auto simp: main_batch_def py_range_def batch_size_def Let_def)

lemma add_main_batches_count:
  "table_exists db \<Longrightarrow>
     \<exists>db'. add_main_batches fake bs acc db = (Inr (acc + 10000 * length bs), db') \<and>
       table_exists db' \<and> length (rows db') = length (rows db) + 10000 * length bs"
proof (induction bs arbitrary: acc db)
  case Nil
  then show ?case by simp
next
  case (Cons b bs)
  obtain db1 where 1: "v2_batch_add_employees (main_batch fake b) db = (Inr 10000, db1)"
      "table_exists db1" "length (rows db1) = length (rows db) + 10000"
    using v2_batch_add_employees_count[OF Cons.prems, of "main_batch fake b"] main_batch_shape[of fake b]
    by auto
  obtain db' where 2: "add_main_batches fake bs (acc + 10000) db1 = (Inr (acc + 10000 + 10000 * length bs), db')"
      "table_exists db'" "length (rows db') = length (rows db1) + 10000 * length bs"
    using Cons.IH[OF 1(2)] by blast
  show ?case using 1 2 by simp
qed

lemma v2_generate_test_data_count:
  assumes "0 \<le> special"
  shows "\<exists>db'. v2_generate_test_data fake count special db
             = (Inr (10000 * nat (count div 10000) + nat special, nat special), db') \<and>
           length (rows db') = length (rows (create_table_if_not_exists db))
             + 10000 * nat (count div 10000) + nat special"
proof -
  let ?c = "create_table_if_not_exists db"
  obtain db2 where 2: "add_main_batches fake (py_range (count div batch_size)) 0 ?c
        = (Inr (10000 * length (py_range (count div batch_size))), db2)"
      "table_exists db2"
      "length (rows db2) = length (rows ?c) + 10000 * length (py_range (count div batch_size))"
    using add_main_batches_count[of ?c fake "py_range (count div batch_size)" 0] by auto
  have s: "length (special_batch fake special) = nat special \<and>
           (\<forall>x\<in>set (special_batch fake special). snd (snd x) = str ''Male'' \<or> snd (snd x) = str ''Female'')"
    by (auto simp: special_batch_def py_range_def)
  obtain db3 where 3: "v2_batch_add_employees (special_batch fake special) db2 = (Inr (nat special), db3)"
      "length (rows db3) = length (rows db2) + nat special"
    using v2_batch_add_employees_count[OF 2(2), of "special_batch fake special"] s by auto
  have r: "length (py_range (count div batch_size)) = nat (count div 10000)"
    by (simp add: py_range_def batch_size_def)
  show ?thesis using 2 3
    by (simp add: v2_generate_test_data_def v2_ensure_table_exists_eq r)
qed

text \<open>
  C3 fails for version 2. With \<open>count = 15000\<close> and \<open>special = 100\<close> on the empty
  database, \<^verbatim>\<open>generate_test_data\<close> reports 10100 records, 100 of them special, and the
  table has 10100 rows, not 15100: the 5000 records after the last whole batch are never
  generated.
\<close>

theorem v2_generate_test_data_drops_remainder:
  "fst (v2_generate_test_data fake 15000 100 empty_database) = Inr (10100, 100) \<and>
   length (rows (snd (v2_generate_test_data fake 15000 100 empty_database))) = 10100"
proof -
  have "rows (create_table_if_not_exists empty_database) = []"
    by (simp add: create_table_if_not_exists_def empty_database_def)
  then show ?thesis
    using v2_generate_test_data_count[of 100 fake 15000 empty_database] by auto
qed

end
